theory Spec2Isabelle
  imports Complex_Main
begin

section \<open>Linear algebra (LinearAlgebra.hpp, LinearAlgebra.cpp)\<close>

text \<open>
  The C++ type \<open>float\<close> is idealised as \<^typ>\<open>real\<close>: the arithmetic of the
  model is exact, rounding, infinities and NaN are not represented.
\<close>

subsection \<open>Vec<3>, Vec<4>\<close>

datatype vec3 = Vec3 real real real

datatype vec4 = Vec4 real real real real

text \<open>\<open>operator[]\<close>; every index in the modelled code is a literal or a loop counter below N.\<close>

fun vec3_at :: "vec3 \<Rightarrow> nat \<Rightarrow> real" where
  "vec3_at (Vec3 a b c) i = (if i = 0 then a else if i = 1 then b else if i = 2 then c else 0)"

fun vec4_at :: "vec4 \<Rightarrow> nat \<Rightarrow> real" where
  "vec4_at (Vec4 a b c d) i =
     (if i = 0 then a else if i = 1 then b else if i = 2 then c else if i = 3 then d else 0)"


subsection \<open>Mat<4>\<close>

text \<open>
  \<open>float m_data[4][4]\<close>, column-major: the first index is the column, the second the row.
  The four arguments of \<open>Mat4\<close> are \<open>m_data[0]\<close> .. \<open>m_data[3]\<close>.
\<close>

datatype mat4 = Mat4 vec4 vec4 vec4 vec4

fun m_data :: "mat4 \<Rightarrow> nat \<Rightarrow> nat \<Rightarrow> real" where
  "m_data (Mat4 c0 c1 c2 c3) c r =
     (if c = 0 then vec4_at c0 r else if c = 1 then vec4_at c1 r
      else if c = 2 then vec4_at c2 r else if c = 3 then vec4_at c3 r else 0)"

text \<open>The double loop \<open>for c < 4, for r < 4: m_data[c][r] = f c r\<close>.\<close>

definition Mat_of :: "(nat \<Rightarrow> nat \<Rightarrow> real) \<Rightarrow> mat4" where
  "Mat_of f = Mat4 (Vec4 (f 0 0) (f 0 1) (f 0 2) (f 0 3))
                   (Vec4 (f 1 0) (f 1 1) (f 1 2) (f 1 3))
                   (Vec4 (f 2 0) (f 2 1) (f 2 2) (f 2 3))
                   (Vec4 (f 3 0) (f 3 1) (f 3 2) (f 3 3))"

text \<open>\<open>Mat()\<close>: all entries 0.\<close>

definition Mat_zero :: mat4 where
  "Mat_zero = Mat_of (\<lambda>c r. 0)"

text \<open>\<open>Mat(const float m[N][N])\<close>: the raw data is row-major, \<open>m_data[c][r] = m[r][c]\<close>.\<close>

definition Mat_raw :: "real list list \<Rightarrow> mat4" where
  "Mat_raw m = Mat_of (\<lambda>c r. m ! r ! c)"


text \<open>The entry of row r and column c.\<close>

definition entry :: "mat4 \<Rightarrow> nat \<Rightarrow> nat \<Rightarrow> real" where
  "entry M r c = m_data M c r"

definition setIdentity :: mat4 where
  "setIdentity = Mat_of (\<lambda>c r. if c = r then 1 else 0)"

text \<open>
  \<open>operator*(const Mat&)\<close>: \<open>res.m_data[c][r] += m_data[i][r] * rhs.m_data[c][i]\<close> for
  \<open>i < 4\<close>, starting from 0. \<open>operator*=\<close> computes the same product of the old value
  of \<open>*this\<close> with \<open>rhs\<close>.
\<close>

instantiation mat4 :: "{times, one}"
begin

definition times_mat4 :: "mat4 \<Rightarrow> mat4 \<Rightarrow> mat4" where
  "times_mat4 A B = Mat_of (\<lambda>c r. \<Sum>i\<leftarrow>[0..<4]. m_data A i r * m_data B c i)"

definition one_mat4 :: mat4 where
  "one_mat4 = setIdentity"

instance ..

end

text \<open>\<open>operator*(const Vec<N>&)\<close>: \<open>res[r] += m_data[c][r] * rhs[c]\<close>.\<close>

definition mat_vec :: "mat4 \<Rightarrow> vec4 \<Rightarrow> vec4" where
  "mat_vec M v =
     Vec4 (\<Sum>c\<leftarrow>[0..<4]. m_data M c 0 * vec4_at v c) (\<Sum>c\<leftarrow>[0..<4]. m_data M c 1 * vec4_at v c)
          (\<Sum>c\<leftarrow>[0..<4]. m_data M c 2 * vec4_at v c) (\<Sum>c\<leftarrow>[0..<4]. m_data M c 3 * vec4_at v c)"

definition transpose_mat :: "mat4 \<Rightarrow> mat4" where
  "transpose_mat M = Mat_of (\<lambda>c r. m_data M r c)"


subsection \<open>Composition helpers\<close>

definition translate_raw :: "real \<Rightarrow> real \<Rightarrow> real \<Rightarrow> real list list" where
  "translate_raw x y z =
     [ [1, 0, 0, x],
      [0, 1, 0, y],
      [0, 0, 1, z],
      [0, 0, 0, 1] ]"

definition translate :: "real \<Rightarrow> real \<Rightarrow> real \<Rightarrow> mat4 \<Rightarrow> mat4" where
  "translate x y z M = (let tmp = Mat_raw (translate_raw x y z) in tmp * M)"










definition rotateXYZW_raw :: "real \<Rightarrow> real \<Rightarrow> real \<Rightarrow> real \<Rightarrow> real list list" where
  "rotateXYZW_raw x y z w =
     (let x2 = x * x; y2 = y * y; z2 = z * z; w2 = w * w in
     [ [1 - 2 * y2 - 2 * z2, 2 * x * y - 2 * z * w, 2 * x * z + 2 * y * w, 0],
      [2 * x * y + 2 * z * w, 1 - 2 * x2 - 2 * z2, 2 * y * z - 2 * x * w, 0],
      [2 * x * z - 2 * y * w, 2 * y * z + 2 * x * w, 1 - 2 * x2 - 2 * y2, 0],
      [0, 0, 0, 1] ])"

definition rotateXYZW :: "real \<Rightarrow> real \<Rightarrow> real \<Rightarrow> real \<Rightarrow> mat4 \<Rightarrow> mat4" where
  "rotateXYZW x y z w M = (let tmp = Mat_raw (rotateXYZW_raw x y z w) in tmp * M)"

definition scale_raw :: "real \<Rightarrow> real \<Rightarrow> real \<Rightarrow> real list list" where
  "scale_raw x y z =
     [ [x, 0, 0, 0],
      [0, y, 0, 0],
      [0, 0, z, 0],
      [0, 0, 0, 1] ]"

definition scale :: "real \<Rightarrow> real \<Rightarrow> real \<Rightarrow> mat4 \<Rightarrow> mat4" where
  "scale x y z M = (let tmp = Mat_raw (scale_raw x y z) in tmp * M)"

subsection \<open>Mat4::invert\<close>




text \<open>\<open>eulerToQuaternion\<close>: \<open>retval[3]\<close> is w, \<open>retval[0..2]\<close> are x, y, z.\<close>

definition eulerToQuaternion :: "vec3 \<Rightarrow> vec4" where
  "eulerToQuaternion euler =
    (let halfX = vec3_at euler 0 / 2; halfY = vec3_at euler 1 / 2; halfZ = vec3_at euler 2 / 2;
         cosHalfX = cos halfX; cosHalfY = cos halfY; cosHalfZ = cos halfZ;
         sinHalfX = sin halfX; sinHalfY = sin halfY; sinHalfZ = sin halfZ;
         r3 = cosHalfX * cosHalfY * cosHalfZ + sinHalfX * sinHalfY * sinHalfZ;
         r0 = sinHalfX * cosHalfY * cosHalfZ - cosHalfX * sinHalfY * sinHalfZ;
         r1 = cosHalfX * sinHalfY * cosHalfZ + sinHalfX * cosHalfY * sinHalfZ;
         r2 = cosHalfX * cosHalfY * sinHalfZ - sinHalfX * sinHalfY * cosHalfZ
     in Vec4 r0 r1 r2 r3)"

section \<open>Camera (Camera.hpp, PerspectiveCamera.hpp, PerspectiveCamera.cpp)\<close>

text \<open>
  The base class \<open>Camera\<close> holds the projection matrix; \<open>PerspectiveCamera\<close> adds its four
  parameters.
\<close>

record camera =
  m_projectionMatrix :: mat4

record perspectiveCamera = camera +
  m_aspectRatio :: real
  m_yfov :: real
  m_znear :: real
  m_zfar :: real

definition updateProjectionMatrix :: "perspectiveCamera \<Rightarrow> perspectiveCamera" where
  "updateProjectionMatrix cam =
    (if m_zfar cam > 0
     then (let tanHalfFov = tan (m_yfov cam * 0.5);
               nminusf = m_znear cam - m_zfar cam;
               m = [ [1 / (m_aspectRatio cam * tanHalfFov), 0, 0, 0],
                    [0, 1 / tanHalfFov, 0, 0],
                    [0, 0, (m_zfar cam + m_znear cam) / nminusf, (2 * m_zfar cam * m_znear cam) / nminusf],
                    [0, 0, - 1, 0] ]
           in cam\<lparr>m_projectionMatrix := Mat_raw m\<rparr>)
     else (let tanHalfFov = tan (m_yfov cam * 0.5);
               m = [ [1 / (m_aspectRatio cam * tanHalfFov), 0, 0, 0],
                    [0, 1 / tanHalfFov, 0, 0],
                    [0, 0, - 1, - 2 * m_znear cam],
                    [0, 0, - 1, 0] ]
           in cam\<lparr>m_projectionMatrix := Mat_raw m\<rparr>))"

text \<open>
  Modelled from the spec: the base constructor \<open>Camera()\<close>, declared in Camera.hpp, whose
  body is not part of the sources. The spec gives a camera one state, its projection matrix,
  recomputed by the concrete variant on construction: the matrix that the base constructor
  leaves is overwritten by \<open>updateProjectionMatrix\<close> before the constructor of
  \<open>PerspectiveCamera\<close> returns, and the default-constructed \<open>Mat4\<close> stands for it.
\<close>

definition PerspectiveCamera :: "real \<Rightarrow> real \<Rightarrow> real \<Rightarrow> real \<Rightarrow> perspectiveCamera" where
  "PerspectiveCamera aspectRatio yfov znear zfar =
     updateProjectionMatrix
       \<lparr>m_projectionMatrix = Mat_zero, m_aspectRatio = aspectRatio, m_yfov = yfov,
        m_znear = znear, m_zfar = zfar\<rparr>"

section \<open>Nodes (Node.hpp, Node.cpp, CameraNode.hpp, MeshNode.hpp, LightNode.hpp)\<close>

datatype node_type = Empty | Mesh | Camera | Light

text \<open>
  Nodes live in a store and are referred to by address. A \<open>NodePtr\<close> (a \<open>shared_ptr\<close>) is an
  \<open>addr option\<close>, \<open>None\<close> being \<open>nullptr\<close>; the \<open>weak_ptr\<close> to the parent is an \<open>addr option\<close>
  too, \<open>None\<close> being the empty weak pointer. A cell of the store is \<open>None\<close> once its node
  has been destroyed. A mesh is referred to by its name, its primitives belong to the
  graphics back end.
\<close>

type_synonym addr = nat

type_synonym mesh = string

text \<open>
  One record holds the members of \<open>Node\<close> and those of its subclasses that the modelled
  functions read or write: \<open>CameraNode::m_camera\<close>, \<open>MeshNode::m_mesh\<close> and
  \<open>LightNode::m_lightPosition\<close>.
\<close>

record node =
  m_name :: string
  m_type :: node_type
  m_position :: vec3
  m_rotation :: vec4
  m_scaling :: vec3
  m_transformMatrix :: mat4
  m_parent :: "addr option"
  m_children :: "addr option list"
  m_camera :: "camera option"
  m_mesh :: "mesh option"
  m_lightPosition :: vec3

type_synonym heap = "node option list"

definition deref :: "heap \<Rightarrow> addr \<Rightarrow> node option" where
  "deref h a = (if a < length h then h ! a else None)"

text \<open>\<open>Node::Node(name, parent)\<close>: the initialiser list, then \<open>setIdentity\<close>.\<close>

definition Node :: "string \<Rightarrow> addr option \<Rightarrow> node" where
  "Node name parent =
     \<lparr>m_name = name, m_type = Empty, m_position = Vec3 0 0 0, m_rotation = Vec4 0 0 0 1,
      m_scaling = Vec3 1 1 1, m_transformMatrix = Mat_zero, m_parent = parent, m_children = [],
      m_camera = None, m_mesh = None, m_lightPosition = Vec3 0 0 0\<rparr>
     \<lparr>m_transformMatrix := setIdentity\<rparr>"

text \<open>
  Modelled from the spec: the constructors \<open>MeshNode::MeshNode\<close>, \<open>CameraNode::CameraNode\<close> and
  \<open>LightNode::LightNode\<close>, declared in the headers, whose bodies are not part of the sources.
  The spec: the node type is fixed at construction, and the specialised kinds attach their
  payload after construction through a setter, null by default.
\<close>

definition MeshNode :: "string \<Rightarrow> addr option \<Rightarrow> node" where
  "MeshNode name parent = (Node name parent)\<lparr>m_type := Mesh, m_mesh := None\<rparr>"

definition CameraNode :: "string \<Rightarrow> addr option \<Rightarrow> node" where
  "CameraNode name parent = (Node name parent)\<lparr>m_type := Camera, m_camera := None\<rparr>"

definition LightNode :: "string \<Rightarrow> addr option \<Rightarrow> node" where
  "LightNode name parent = (Node name parent)\<lparr>m_type := Light\<rparr>"

definition updateTransformMatrix :: "node \<Rightarrow> node" where
  "updateTransformMatrix n =
    (let M = setIdentity;
         M = scale (vec3_at (m_scaling n) 0) (vec3_at (m_scaling n) 1) (vec3_at (m_scaling n) 2) M;
         M = rotateXYZW (vec4_at (m_rotation n) 0) (vec4_at (m_rotation n) 1)
               (vec4_at (m_rotation n) 2) (vec4_at (m_rotation n) 3) M;
         M = translate (vec3_at (m_position n) 0) (vec3_at (m_position n) 1)
               (vec3_at (m_position n) 2) M
     in n\<lparr>m_transformMatrix := M\<rparr>)"

definition setPosition :: "real \<Rightarrow> real \<Rightarrow> real \<Rightarrow> node \<Rightarrow> node" where
  "setPosition x y z n = updateTransformMatrix (n\<lparr>m_position := Vec3 x y z\<rparr>)"

definition setRotationEuler :: "real \<Rightarrow> real \<Rightarrow> real \<Rightarrow> node \<Rightarrow> node" where
  "setRotationEuler x y z n =
     updateTransformMatrix (n\<lparr>m_rotation := eulerToQuaternion (Vec3 x y z)\<rparr>)"

definition setRotationQuaternion :: "real \<Rightarrow> real \<Rightarrow> real \<Rightarrow> real \<Rightarrow> node \<Rightarrow> node" where
  "setRotationQuaternion x y z w n = updateTransformMatrix (n\<lparr>m_rotation := Vec4 x y z w\<rparr>)"

definition setScaling :: "real \<Rightarrow> real \<Rightarrow> real \<Rightarrow> node \<Rightarrow> node" where
  "setScaling x y z n = updateTransformMatrix (n\<lparr>m_scaling := Vec3 x y z\<rparr>)"

definition setTransformMatrix :: "mat4 \<Rightarrow> node \<Rightarrow> node" where
  "setTransformMatrix transformMatrix n = n\<lparr>m_transformMatrix := transformMatrix\<rparr>"

definition setCamera :: "camera option \<Rightarrow> node \<Rightarrow> node" where
  "setCamera cam n = n\<lparr>m_camera := cam\<rparr>"

definition setMesh :: "mesh option \<Rightarrow> node \<Rightarrow> node" where
  "setMesh mesh n = n\<lparr>m_mesh := mesh\<rparr>"

definition setLightPosition :: "vec3 \<Rightarrow> node \<Rightarrow> node" where
  "setLightPosition lightPosition n = n\<lparr>m_lightPosition := lightPosition\<rparr>"

text \<open>\<open>parent()\<close>: \<open>m_parent.lock()\<close>, the parent node if it is still alive.\<close>

definition parent_of :: "heap \<Rightarrow> node \<Rightarrow> node option" where
  "parent_of h n = (case m_parent n of None \<Rightarrow> None | Some p \<Rightarrow> deref h p)"

text \<open>
  \<open>totalTransformMatrix()\<close> recurses along the parent chain; \<open>None\<close> is the recursion that
  does not return.
\<close>

partial_function (option) totalTransformMatrix :: "heap \<Rightarrow> node \<Rightarrow> mat4 option" where
  "totalTransformMatrix h this =
     (case parent_of h this of
        None \<Rightarrow> Some (m_transformMatrix this)
      | Some parentNode \<Rightarrow>
          Option.bind (totalTransformMatrix h parentNode)
            (\<lambda>t. Some (t * m_transformMatrix this)))"

definition addChild :: "addr option \<Rightarrow> node \<Rightarrow> node" where
  "addChild child n = n\<lparr>m_children := m_children n @ [child]\<rparr>"

text \<open>A call \<open>node->f(...)\<close> of a method that changes the node, through a pointer to it.\<close>

definition at_node :: "addr \<Rightarrow> (node \<Rightarrow> node) \<Rightarrow> heap \<Rightarrow> heap" where
  "at_node a f h = h[a := map_option f (h ! a)]"

section \<open>Scene (Scene.hpp, Scene.cpp)\<close>

datatype error = runtime_error string

text \<open>
  Of the drawing context only \<open>isDeviceOpen()\<close> is read: the state of the display device.
\<close>

record drawingContext =
  isDeviceOpen :: bool

record scene =
  scene_name :: string
  m_drawingContext :: "drawingContext option"
  m_rootNode :: "addr option"
  m_activeCameraNode :: "addr option"

text \<open>
  \<open>Scene::Scene(name, drawingContext)\<close>: the root node is allocated by the initialiser list,
  then the two checks of the body. \<open>new\<close> allocates the next free cell of the store.
\<close>

definition Scene :: "string \<Rightarrow> drawingContext option \<Rightarrow> heap \<Rightarrow> error + scene \<times> heap" where
  "Scene name drawingContext h =
    (let rootNode = Some (length h);
         h = h @ [Some (Node [] None)]
     in if drawingContext = None then Inl (runtime_error ''Invalid drawing context'')
        else if rootNode = None then Inl (runtime_error ''Could not create root node for scene'')
        else Inr (\<lparr>scene_name = name, m_drawingContext = drawingContext, m_rootNode = rootNode,
                   m_activeCameraNode = None\<rparr>, h))"


text \<open>The template parameter \<open>T\<close> of \<open>createNode\<close> and \<open>new T(name, parent)\<close>.\<close>

datatype node_class = NodeT | MeshNodeT | CameraNodeT | LightNodeT

fun new_node :: "node_class \<Rightarrow> string \<Rightarrow> addr option \<Rightarrow> node" where
  "new_node NodeT name parent = Node name parent"
| "new_node MeshNodeT name parent = MeshNode name parent"
| "new_node CameraNodeT name parent = CameraNode name parent"
| "new_node LightNodeT name parent = LightNode name parent"

text \<open>
  \<open>Scene::createNode<T>(name, parent)\<close>. The method reads no member of the scene. It returns
  the address of the new node and the store. A non-null \<open>parent\<close> is a \<open>shared_ptr\<close> and so
  refers to a live node; a store where it does not has no counterpart in the program.
\<close>

definition createNode ::
  "scene \<Rightarrow> node_class \<Rightarrow> string \<Rightarrow> addr option \<Rightarrow> heap \<Rightarrow> error + addr \<times> heap" where
  "createNode sc T name parent h =
    (case parent of
       None \<Rightarrow> Inl (runtime_error ''Invalid node parent'')
     | Some p \<Rightarrow>
        (let newNode = length h;
             h = h @ [Some (new_node T name parent)];
             h = h[p := map_option (addChild (Some newNode)) (h ! p)]
         in Inr (newNode, h)))"



section \<open>Renderer (Renderer.hpp, Renderer.cpp)\<close>

text \<open>
  The calls into the graphics back end, in the order they are issued: \<open>Activate\<close> is
  \<open>scene->activate()\<close>, \<open>Clear\<close> the GL state set-up and \<open>glClear\<close>, \<open>DrawMesh\<close> is
  \<open>mesh->draw(mvMatrix, projectionMatrix, normalMatrix, lightVec)\<close>, \<open>Present\<close> is
  \<open>drawingContext->draw()\<close>. They are taken to return normally.
\<close>

datatype gl_call = Activate | Clear | DrawMesh mesh mat4 mat4 mat4 "addr list" | Present

record renderer =
  m_viewMatrix :: mat4
  m_projectionMatrix_renderer :: mat4


record world =
  heap :: heap
  rend :: renderer
  calls :: "gl_call list"





section \<open>Notions used to state the properties\<close>




text \<open>
  The elementary matrices of a node's translation, rotation and scaling, and the property
  that the cached local transform of a node is their product.
\<close>

definition Translate :: "vec3 \<Rightarrow> mat4" where
  "Translate p = Mat_raw (translate_raw (vec3_at p 0) (vec3_at p 1) (vec3_at p 2))"

definition Rotate :: "vec4 \<Rightarrow> mat4" where
  "Rotate q = Mat_raw (rotateXYZW_raw (vec4_at q 0) (vec4_at q 1) (vec4_at q 2) (vec4_at q 3))"

definition Scale :: "vec3 \<Rightarrow> mat4" where
  "Scale s = Mat_raw (scale_raw (vec3_at s 0) (vec3_at s 1) (vec3_at s 2))"

definition TRS_consistent :: "node \<Rightarrow> bool" where
  "TRS_consistent n \<longleftrightarrow>
     m_transformMatrix n = Translate (m_position n) * Rotate (m_rotation n) * Scale (m_scaling n)"

text \<open>
  The nodes below a pointer: the node it refers to and those reached from it through the
  child lists. The nodes of a scene are the nodes below its root.
\<close>

inductive_set nodes_below :: "heap \<Rightarrow> addr option \<Rightarrow> addr set" for h :: heap and p :: "addr option"
where
  self: "p = Some a \<Longrightarrow> a \<in> nodes_below h p"
| child: "a \<in> nodes_below h p \<Longrightarrow> deref h a = Some n \<Longrightarrow> Some c \<in> set (m_children n)
          \<Longrightarrow> c \<in> nodes_below h p"



text \<open>
  The parent references agree with the child lists: every child of a live node is a live
  node whose parent reference is that node. \<open>createNode\<close> builds such stores.
\<close>

definition parents_agree :: "heap \<Rightarrow> bool" where
  "parents_agree h \<longleftrightarrow>
     (\<forall>a n c. deref h a = Some n \<and> Some c \<in> set (m_children n)
        \<longrightarrow> (\<exists>cn. deref h c = Some cn \<and> m_parent cn = Some a))"






fun chain_within :: "nat \<Rightarrow> heap \<Rightarrow> node \<Rightarrow> bool" where
  "chain_within 0 h n = (parent_of h n = None)"
| "chain_within (Suc k) h n =
     (case parent_of h n of None \<Rightarrow> True | Some pn \<Rightarrow> chain_within k h pn)"




text \<open>
  The stores that the program builds: from the empty store, by the constructor of \<open>Scene\<close>,
  by \<open>createNode\<close> on a live parent, and by calls on a node that leave its parent
  reference and its child list alone, as every public method of the node classes does.
\<close>

definition keeps_links :: "(node \<Rightarrow> node) \<Rightarrow> bool" where
  "keeps_links f \<longleftrightarrow> (\<forall>n. m_parent (f n) = m_parent n \<and> m_children (f n) = m_children n)"

inductive built :: "heap \<Rightarrow> bool" where
  empty: "built []"
| scene: "built h \<Longrightarrow> Scene name ctx h = Inr (sc, h') \<Longrightarrow> built h'"
| create: "built h \<Longrightarrow> deref h p = Some pn \<Longrightarrow> createNode sc T name (Some p) h = Inr (a, h')
           \<Longrightarrow> built h'"
| call: "built h \<Longrightarrow> keeps_links f \<Longrightarrow> built (at_node a f h)"

text \<open>In such a store parents come before their children.\<close>

definition ordered :: "heap \<Rightarrow> bool" where
  "ordered h \<longleftrightarrow>
     (\<forall>a n. deref h a = Some n \<longrightarrow>
        (\<forall>q. m_parent n = Some q \<longrightarrow> q < a)
        \<and> (\<forall>c \<in> set (m_children n). \<exists>ca. c = Some ca \<and> a < ca))"

section \<open>Example worlds\<close>

text \<open>
  A chain of three nodes A, B, C at the addresses 0, 1, 2, each the parent of the next; A is
  the root node of a scene.
\<close>

definition chain_A :: node where
  "chain_A = addChild (Some 1) (setPosition 1 2 3 (Node [] None))"

definition chain_B :: node where
  "chain_B = addChild (Some 2) (setScaling 2 2 2 (Node ''B'' (Some 0)))"

definition chain_C :: node where
  "chain_C = setPosition 0 1 0 (Node ''C'' (Some 1))"

definition chain_heap :: heap where
  "chain_heap = [Some chain_A, Some chain_B, Some chain_C]"

text \<open>Two scenes, each with its root node alone: the roots are at the addresses 0 and 1.\<close>

definition open_context :: drawingContext where
  "open_context = \<lparr>isDeviceOpen = True\<rparr>"


definition scene_one :: scene where
  "scene_one = \<lparr>scene_name = ''one'', m_drawingContext = Some open_context,
                 m_rootNode = Some 0, m_activeCameraNode = None\<rparr>"

definition two_roots :: heap where
  "two_roots = [Some (Node [] None), Some (Node [] None)]"











section \<open>Properties of the linear algebra\<close>

lemma upt_4: "[0..<4] = [0, 1, 2, 3]"
  by (simp add: upt_rec)

lemma mat4_exhaust:
  obtains a00 a01 a02 a03 a10 a11 a12 a13 a20 a21 a22 a23 a30 a31 a32 a33 where
    "M = Mat4 (Vec4 a00 a01 a02 a03) (Vec4 a10 a11 a12 a13)
              (Vec4 a20 a21 a22 a23) (Vec4 a30 a31 a32 a33)"
proof (cases M)
  case (Mat4 c0 c1 c2 c3)
  then show ?thesis
    using that by (cases c0; cases c1; cases c2; cases c3) auto
qed


lemma Mat_of_m_data: "Mat_of (m_data M) = M"
  by (cases M rule: mat4_exhaust) (simp add: Mat_of_def)






















section \<open>Properties of nodes and of the store\<close>

lemma Translate_apply:
  "mat_vec (Translate (Vec3 x y z)) (Vec4 a b c 1) = Vec4 (a + x) (b + y) (c + z) 1"
  by (simp add: Translate_def mat_vec_def Mat_raw_def Mat_of_def translate_raw_def upt_4)

lemma Scale_apply:
  "mat_vec (Scale (Vec3 x y z)) (Vec4 a b c w) = Vec4 (x * a) (y * b) (z * c) w"
  by (simp add: Scale_def mat_vec_def Mat_raw_def Mat_of_def scale_raw_def upt_4)

lemma Rotate_orthogonal:
  "x * x + y * y + z * z + w * w = 1 \<Longrightarrow>
   Rotate (Vec4 x y z w) * transpose_mat (Rotate (Vec4 x y z w)) = 1"
  apply (simp add: Rotate_def Mat_raw_def Mat_of_def rotateXYZW_raw_def Let_def
      transpose_mat_def times_mat4_def one_mat4_def setIdentity_def upt_4)
  apply (intro conjI)
  apply algebra+
  done


lemma updateTransformMatrix_fields:
  "m_position (updateTransformMatrix n) = m_position n"
  "m_rotation (updateTransformMatrix n) = m_rotation n"
  "m_scaling (updateTransformMatrix n) = m_scaling n"
  "m_name (updateTransformMatrix n) = m_name n"
  "m_type (updateTransformMatrix n) = m_type n"
  "m_parent (updateTransformMatrix n) = m_parent n"
  "m_children (updateTransformMatrix n) = m_children n"
  "m_camera (updateTransformMatrix n) = m_camera n"
  "m_mesh (updateTransformMatrix n) = m_mesh n"
  by (simp_all add: updateTransformMatrix_def Let_def)


lemma TRS_defaults: "Translate (Vec3 0 0 0) * Rotate (Vec4 0 0 0 1) * Scale (Vec3 1 1 1) = 1"
  by (simp add: Translate_def Rotate_def Scale_def Mat_raw_def Mat_of_def translate_raw_def
      rotateXYZW_raw_def scale_raw_def times_mat4_def one_mat4_def setIdentity_def upt_4)

lemma new_node_fields:
  "m_name (new_node T name p) = name"
  "m_position (new_node T name p) = Vec3 0 0 0"
  "m_rotation (new_node T name p) = Vec4 0 0 0 1"
  "m_scaling (new_node T name p) = Vec3 1 1 1"
  "m_children (new_node T name p) = []"
  "m_parent (new_node T name p) = p"
  "m_transformMatrix (new_node T name p) = 1"
  "m_camera (new_node T name p) = None"
  "m_mesh (new_node T name p) = None"
  by (cases T; simp add: Node_def MeshNode_def CameraNode_def LightNode_def one_mat4_def)+

lemma TRS_consistent_new: "TRS_consistent (new_node T name p)"
  by (simp add: TRS_consistent_def new_node_fields TRS_defaults)

lemma deref_append_new: "deref (h @ [x]) (length h) = x"
  by (simp add: deref_def)

lemma deref_append_old: "deref h a = Some n \<Longrightarrow> deref (h @ [x]) a = Some n"
  by (auto simp: deref_def nth_append split: if_splits)

lemma deref_less: "deref h a = Some n \<Longrightarrow> a < length h"
  by (auto simp: deref_def split: if_splits)


lemma deref_update: "deref (h[a := x]) b = (if b = a \<and> a < length h then x else deref h b)"
  by (auto simp: deref_def)

lemma total_no_parent:
  "parent_of h n = None \<Longrightarrow> totalTransformMatrix h n = Some (m_transformMatrix n)"
  by (subst totalTransformMatrix.simps) simp

lemma total_parent:
  "parent_of h n = Some p \<Longrightarrow> totalTransformMatrix h p = Some P \<Longrightarrow>
   totalTransformMatrix h n = Some (P * m_transformMatrix n)"
  by (subst totalTransformMatrix.simps) simp

lemma total_chain3:
  assumes "parent_of h A = None" and "parent_of h B = Some A" and "parent_of h C = Some B"
  shows "totalTransformMatrix h C
         = Some (m_transformMatrix A * m_transformMatrix B * m_transformMatrix C)"
  by (intro total_parent [OF assms(3)] total_parent [OF assms(2)] total_no_parent [OF assms(1)])

lemma createNode_valid:
  assumes "deref h p = Some pn"
  shows "createNode sc T name (Some p) h =
         Inr (length h,
              (h @ [Some (new_node T name (Some p))])[p := Some (addChild (Some (length h)) pn)])"
proof -
  have "p < length h"
    using assms by (rule deref_less)
  moreover have "h ! p = Some pn"
    using assms by (auto simp: deref_def split: if_splits)
  ultimately show ?thesis
    by (simp add: createNode_def Let_def nth_append)
qed

section \<open>Properties of the traversal\<close>











lemma nodes_below_None: "nodes_below h None = {}"
proof -
  have "False" if "b \<in> nodes_below h None" for b
    using that by (induction rule: nodes_below.induct) simp_all
  then show ?thesis by blast
qed



section \<open>Properties of render\<close>



















text \<open>\<open>render\<close> returns on a store whose tree is within the bound and whose parent chains end.\<close>

lemma chain_within_total: "chain_within j h n \<Longrightarrow> \<exists>t. totalTransformMatrix h n = Some t"
proof (induction j arbitrary: n)
  case 0
  then show ?case
    by (simp add: total_no_parent)
next
  case (Suc j)
  show ?case
  proof (cases "parent_of h n")
    case None
    then show ?thesis
      by (simp add: total_no_parent)
  next
    case (Some pn)
    then have "chain_within j h pn"
      using Suc.prems by simp
    then obtain t where "totalTransformMatrix h pn = Some t"
      using Suc.IH by blast
    then show ?thesis
      using total_parent [OF Some] by blast
  qed
qed








section \<open>The scenario\<close>





















section \<open>Stores built by the program\<close>

lemma keeps_links_setters:
  "keeps_links (setPosition x y z)" "keeps_links (setRotationEuler x y z)"
  "keeps_links (setRotationQuaternion x y z w)" "keeps_links (setScaling x y z)"
  "keeps_links (setTransformMatrix M)" "keeps_links (setCamera cam)"
  "keeps_links (setMesh mesh)" "keeps_links (setLightPosition p)"
  by (simp_all add: keeps_links_def setPosition_def setRotationEuler_def
      setRotationQuaternion_def setScaling_def setTransformMatrix_def setCamera_def
      setMesh_def setLightPosition_def updateTransformMatrix_fields)

lemma addChild_fields:
  "m_parent (addChild c n) = m_parent n" "m_children (addChild c n) = m_children n @ [c]"
  by (simp_all add: addChild_def)

lemma deref_at_node: "deref (at_node a f h) b = (if b = a then map_option f (deref h b) else deref h b)"
  by (auto simp: deref_def at_node_def)

lemma deref_append: "deref (h @ [x]) b = (if b = length h then x else deref h b)"
  by (auto simp: deref_def nth_append)

lemma deref_create:
  assumes "deref h p = Some pn"
  shows "deref ((h @ [Some nn])[p := Some (addChild (Some (length h)) pn)]) b
         = (if b = p then Some (addChild (Some (length h)) pn)
            else if b = length h then Some nn else deref h b)"
  using deref_less [OF assms] by (auto simp: deref_update deref_append)

lemma parents_agree_built_step:
  assumes pa: "parents_agree h" and p: "deref h p = Some pn"
  shows "parents_agree ((h @ [Some (new_node T name (Some p))])
                          [p := Some (addChild (Some (length h)) pn)])"
  unfolding parents_agree_def
proof (intro allI impI, elim conjE)
  let ?nn = "new_node T name (Some p)"
  let ?h = "(h @ [Some ?nn])[p := Some (addChild (Some (length h)) pn)]"
  fix a n c
  assume a: "deref ?h a = Some n" and c: "Some c \<in> set (m_children n)"
  have lt: "p < length h"
    using p by (rule deref_less)
  have live: "\<exists>cn. deref ?h c = Some cn \<and> m_parent cn = Some a'"
    if "deref h c = Some cn0" "m_parent cn0 = Some a'" for cn0 a'
    using that p deref_less [OF that(1)] by (auto simp: deref_create [OF p] addChild_fields)
  consider "a = p" | "a \<noteq> p" "a = length h" | "a \<noteq> p" "a \<noteq> length h"
    by blast
  then show "\<exists>cn. deref ?h c = Some cn \<and> m_parent cn = Some a"
  proof cases
    case 1
    then have n: "n = addChild (Some (length h)) pn"
      using a by (simp add: deref_create [OF p])
    show ?thesis
    proof (cases "c = length h")
      case True
      then show ?thesis
        using 1 lt by (simp add: deref_create [OF p] new_node_fields)
    next
      case False
      then have "Some c \<in> set (m_children pn)"
        using c n by (simp add: addChild_fields)
      then obtain cn0 where "deref h c = Some cn0" "m_parent cn0 = Some p"
        using pa p unfolding parents_agree_def by blast
      then show ?thesis
        using live 1 by blast
    qed
  next
    case 2
    then have "n = ?nn"
      using a by (simp add: deref_create [OF p])
    then show ?thesis
      using c by (simp add: new_node_fields)
  next
    case 3
    then have "deref h a = Some n"
      using a by (simp add: deref_create [OF p])
    then obtain cn0 where "deref h c = Some cn0" "m_parent cn0 = Some a"
      using pa c unfolding parents_agree_def by blast
    then show ?thesis
      using live by blast
  qed
qed

lemma ordered_built_step:
  assumes o: "ordered h" and p: "deref h p = Some pn"
  shows "ordered ((h @ [Some (new_node T name (Some p))])
                    [p := Some (addChild (Some (length h)) pn)])"
  unfolding ordered_def
proof (intro allI impI)
  let ?nn = "new_node T name (Some p)"
  let ?h = "(h @ [Some ?nn])[p := Some (addChild (Some (length h)) pn)]"
  fix a n
  assume a: "deref ?h a = Some n"
  have lt: "p < length h"
    using p by (rule deref_less)
  have old: "(\<forall>q. m_parent m = Some q \<longrightarrow> q < b)
        \<and> (\<forall>c \<in> set (m_children m). \<exists>ca. c = Some ca \<and> b < ca)"
    if "deref h b = Some m" for b m
    using o that unfolding ordered_def by blast
  consider "a = p" | "a \<noteq> p" "a = length h" | "a \<noteq> p" "a \<noteq> length h"
    by blast
  then show "(\<forall>q. m_parent n = Some q \<longrightarrow> q < a)
        \<and> (\<forall>c \<in> set (m_children n). \<exists>ca. c = Some ca \<and> a < ca)"
  proof cases
    case 1
    then have "n = addChild (Some (length h)) pn"
      using a by (simp add: deref_create [OF p])
    then show ?thesis
      using old [OF p] 1 lt by (auto simp: addChild_fields)
  next
    case 2
    then have "n = ?nn"
      using a by (simp add: deref_create [OF p])
    then show ?thesis
      using 2 lt by (simp add: new_node_fields)
  next
    case 3
    then have "deref h a = Some n"
      using a by (simp add: deref_create [OF p])
    then show ?thesis
      by (rule old)
  qed
qed

lemma links_at_node:
  assumes "keeps_links f" and "deref (at_node a f h) b = Some n"
  shows "\<exists>m. deref h b = Some m \<and> m_parent n = m_parent m \<and> m_children n = m_children m"
  using assms by (auto simp: deref_at_node keeps_links_def split: if_splits)

lemma live_at_node:
  assumes "keeps_links f" and "deref h b = Some m"
  shows "\<exists>n. deref (at_node a f h) b = Some n \<and> m_parent n = m_parent m
            \<and> m_children n = m_children m"
  using assms by (auto simp: deref_at_node keeps_links_def)

lemma built_invariant: "built h \<Longrightarrow> parents_agree h \<and> ordered h"
proof (induction rule: built.induct)
  case empty
  then show ?case
    by (simp add: parents_agree_def ordered_def deref_def)
next
  case (scene h name ctx sc h')
  then have h': "h' = h @ [Some (Node [] None)]"
    by (auto simp: Scene_def Let_def split: if_splits)
  have f: "m_children (Node [] None) = []" "m_parent (Node [] None) = None"
    by (simp_all add: Node_def)
  have up: "deref h' c = Some cn" if "deref h c = Some cn" for c cn
    unfolding h' using that by (rule deref_append_old)
  have down: "deref h a = Some n \<or> n = Node [] None" if "deref h' a = Some n" for a n
    using that unfolding h' by (auto simp: deref_append split: if_splits)
  have pa: "parents_agree h'"
    unfolding parents_agree_def
  proof (intro allI impI, elim conjE)
    fix a n c
    assume a: "deref h' a = Some n" and c: "Some c \<in> set (m_children n)"
    then have "deref h a = Some n"
      using down [OF a] f by auto
    then obtain cn where "deref h c = Some cn" "m_parent cn = Some a"
      using scene.IH c unfolding parents_agree_def by blast
    then show "\<exists>cn. deref h' c = Some cn \<and> m_parent cn = Some a"
      using up by blast
  qed
  have "ordered h'"
    unfolding ordered_def
  proof (intro allI impI)
    fix a n
    assume a: "deref h' a = Some n"
    from down [OF a] show "(\<forall>q. m_parent n = Some q \<longrightarrow> q < a)
        \<and> (\<forall>c \<in> set (m_children n). \<exists>ca. c = Some ca \<and> a < ca)"
    proof
      assume "deref h a = Some n"
      then show ?thesis
        using scene.IH unfolding ordered_def by blast
    next
      assume "n = Node [] None"
      then show ?thesis
        using f by simp
    qed
  qed
  then show ?case
    using pa by simp
next
  case (create h p pn sc T name a h')
  have "h' = (h @ [Some (new_node T name (Some p))])[p := Some (addChild (Some (length h)) pn)]"
    using create.hyps(3) unfolding createNode_valid [OF create.hyps(2)] by auto
  then show ?case
    using parents_agree_built_step ordered_built_step create.IH create.hyps(2) by simp
next
  case (call h f a)
  have pa: "parents_agree (at_node a f h)"
    unfolding parents_agree_def
  proof (intro allI impI, elim conjE)
    fix b n c
    assume "deref (at_node a f h) b = Some n" "Some c \<in> set (m_children n)"
    then obtain m where "deref h b = Some m" "Some c \<in> set (m_children m)"
      using links_at_node [OF call.hyps(2), of a h b n] by auto
    then obtain cn where "deref h c = Some cn" "m_parent cn = Some b"
      using call.IH unfolding parents_agree_def by blast
    then show "\<exists>cn. deref (at_node a f h) c = Some cn \<and> m_parent cn = Some b"
      using live_at_node [OF call.hyps(2), of h c cn a] by auto
  qed
  have "ordered (at_node a f h)"
    unfolding ordered_def
  proof (intro allI impI)
    fix b n
    assume "deref (at_node a f h) b = Some n"
    then obtain m where "deref h b = Some m" "m_parent n = m_parent m"
      "m_children n = m_children m"
      using links_at_node [OF call.hyps(2)] by blast
    then show "(\<forall>q. m_parent n = Some q \<longrightarrow> q < b)
        \<and> (\<forall>c \<in> set (m_children n). \<exists>ca. c = Some ca \<and> b < ca)"
      using call.IH unfolding ordered_def by simp
  qed
  then show ?case
    using pa by simp
qed

lemma chain_within_mono: "chain_within j h n \<Longrightarrow> j \<le> j' \<Longrightarrow> chain_within j' h n"
proof (induction j arbitrary: j' n)
  case 0
  then show ?case
    by (cases j') simp_all
next
  case (Suc j)
  then obtain i where j': "j' = Suc i" "j \<le> i"
    by (cases j') simp_all
  show ?case
  proof (cases "parent_of h n")
    case None
    then show ?thesis
      using j' by simp
  next
    case (Some pn)
    then show ?thesis
      using Suc.IH [of pn i] Suc.prems(1) j' by simp
  qed
qed

lemma ordered_chain: "ordered h \<Longrightarrow> deref h a = Some n \<Longrightarrow> chain_within a h n"
proof (induction a arbitrary: n rule: less_induct)
  case (less a)
  show ?case
  proof (cases "parent_of h n")
    case None
    then show ?thesis
      by (cases a) simp_all
  next
    case (Some pn)
    then obtain q where q: "m_parent n = Some q" "deref h q = Some pn"
      by (auto simp: parent_of_def split: option.splits)
    then have lt: "q < a"
      using less.prems unfolding ordered_def by blast
    then have "chain_within q h pn"
      using less.IH less.prems(1) q(2) by blast
    then have "chain_within (Suc q) h n"
      using Some by simp
    then show ?thesis
      using lt chain_within_mono [of "Suc q" h n a] by simp
  qed
qed





text \<open>
  On a store built by the program the recursions return: \<open>totalTransformMatrix\<close> on every
  live node, \<open>render\<close> on every scene whose root and active camera are live, with the size
  of the store as bound, and the traversal meets no null node.
\<close>

lemma built_total_returns:
  "built h \<Longrightarrow> deref h a = Some n \<Longrightarrow> \<exists>t. totalTransformMatrix h n = Some t"
  using built_invariant ordered_chain chain_within_total by blast



text \<open>The example stores are built by the program.\<close>

lemma built_root: "built [Some (Node [] None)]"
proof -
  have "Scene ''s'' (Some open_context) []
        = Inr (\<lparr>scene_name = ''s'', m_drawingContext = Some open_context,
                 m_rootNode = Some 0, m_activeCameraNode = None\<rparr>, [Some (Node [] None)])"
    by (simp add: Scene_def Let_def)
  then show ?thesis
    using built.scene [OF built.empty] by blast
qed

lemma built_chain: "built chain_heap"
proof -
  let ?A0 = "setPosition 1 2 3 (Node [] None)"
  let ?B0 = "setScaling 2 2 2 (Node ''B'' (Some 0))"
  have 1: "built [Some ?A0]"
    using built.call [OF built_root keeps_links_setters(1) [of 1 2 3], of 0]
    by (simp add: at_node_def)
  have 2: "built [Some (addChild (Some 1) ?A0), Some (Node ''B'' (Some 0))]"
    using built.create [OF 1, of 0 ?A0 scene_one NodeT "''B''"]
    by (simp add: deref_def createNode_def Let_def)
  have 3: "built [Some (addChild (Some 1) ?A0), Some ?B0]"
    using built.call [OF 2 keeps_links_setters(4) [of 2 2 2], of 1]
    by (simp add: at_node_def)
  have 4: "built [Some (addChild (Some 1) ?A0), Some (addChild (Some 2) ?B0),
                  Some (Node ''C'' (Some 1))]"
    using built.create [OF 3, of 1 ?B0 scene_one NodeT "''C''"]
    by (simp add: deref_def createNode_def Let_def numeral_2_eq_2)
  show ?thesis
    using built.call [OF 4 keeps_links_setters(1) [of 0 1 0], of 2]
    by (simp add: at_node_def chain_heap_def chain_A_def chain_B_def chain_C_def)
qed


lemma built_two_roots: "built two_roots"
proof -
  have "Scene ''s'' (Some open_context) [Some (Node [] None)]
        = Inr (\<lparr>scene_name = ''s'', m_drawingContext = Some open_context,
                 m_rootNode = Some 1, m_activeCameraNode = None\<rparr>, two_roots)"
    by (simp add: Scene_def Let_def two_roots_def)
  then show ?thesis
    using built.scene [OF built_root] by blast
qed


section \<open>Claims on the linear algebra and the camera\<close>






text \<open>
  C4. The projection matrix of \<open>PerspectiveCamera(aspectRatio, yfov, znear, zfar)\<close>: for
  \<open>zfar > 0\<close> the entries [2,2], [2,3], [3,2] (row, column) are
  \<open>(zfar+znear)/(znear-zfar)\<close>, \<open>(2*zfar*znear)/(znear-zfar)\<close> and \<open>-1\<close>; for
  \<open>zfar \<le> 0\<close> they are \<open>-1\<close>, \<open>-2*znear\<close> and \<open>-1\<close>. In both cases [0,0] is
  \<open>1/(aspect*tan(yfov/2))\<close> and [1,1] is \<open>1/tan(yfov/2)\<close>, so they are equal for aspect 1.
\<close>

theorem perspective_projection_entries:
  "(0 < zfar \<longrightarrow>
      entry (m_projectionMatrix (PerspectiveCamera aspect yfov znear zfar)) 2 2
        = (zfar + znear) / (znear - zfar)
    \<and> entry (m_projectionMatrix (PerspectiveCamera aspect yfov znear zfar)) 2 3
        = (2 * zfar * znear) / (znear - zfar)
    \<and> entry (m_projectionMatrix (PerspectiveCamera aspect yfov znear zfar)) 3 2 = - 1)
   \<and> (zfar \<le> 0 \<longrightarrow>
      entry (m_projectionMatrix (PerspectiveCamera aspect yfov znear zfar)) 2 2 = - 1
    \<and> entry (m_projectionMatrix (PerspectiveCamera aspect yfov znear zfar)) 2 3 = - 2 * znear
    \<and> entry (m_projectionMatrix (PerspectiveCamera aspect yfov znear zfar)) 3 2 = - 1)
   \<and> entry (m_projectionMatrix (PerspectiveCamera aspect yfov znear zfar)) 0 0
        = 1 / (aspect * tan (yfov / 2))
   \<and> entry (m_projectionMatrix (PerspectiveCamera aspect yfov znear zfar)) 1 1
        = 1 / tan (yfov / 2)
   \<and> (aspect = 1 \<longrightarrow>
        entry (m_projectionMatrix (PerspectiveCamera aspect yfov znear zfar)) 0 0
        = entry (m_projectionMatrix (PerspectiveCamera aspect yfov znear zfar)) 1 1)"
  by (simp add: PerspectiveCamera_def updateProjectionMatrix_def Let_def entry_def Mat_raw_def
      Mat_of_def)

theorem perspective_projection_entries_witness:
  "(0::real) < 3 \<and> entry (m_projectionMatrix (PerspectiveCamera 1 1 1 3)) 2 2 = - 2
   \<and> entry (m_projectionMatrix (PerspectiveCamera 1 1 1 3)) 2 3 = - 3
   \<and> entry (m_projectionMatrix (PerspectiveCamera 1 1 1 3)) 3 2 = - 1
   \<and> (0::real) \<le> 0 \<and> entry (m_projectionMatrix (PerspectiveCamera 1 1 1 0)) 2 2 = - 1
   \<and> entry (m_projectionMatrix (PerspectiveCamera 1 1 1 0)) 2 3 = - 2
   \<and> entry (m_projectionMatrix (PerspectiveCamera 1 1 1 3)) 0 0
      = entry (m_projectionMatrix (PerspectiveCamera 1 1 1 3)) 1 1"
  using perspective_projection_entries [of 3 1 1 1] perspective_projection_entries [of 0 1 1 1]
  by simp

section \<open>Claims on nodes and the scene\<close>

text \<open>
  C1. \<open>totalTransformMatrix()\<close> of a node is the total transform of its parent times the
  local transform when the weak parent reference locks to a live node, and the local transform
  alone otherwise. For a chain A, B, C with local transforms Ta, Tb, Tc the total transform of
  C is \<open>Ta * Tb * Tc\<close>. Nothing is cached: after the local transform of the ancestor A has
  been replaced in the store, the total transform of C is computed from the new one. On a
  store built by the program the recursion returns for every live node.
\<close>

theorem totalTransformMatrix_chain:
  "(parent_of h n = None \<longrightarrow> totalTransformMatrix h n = Some (m_transformMatrix n))
   \<and> (parent_of h n = Some pn \<and> totalTransformMatrix h pn = Some P \<longrightarrow>
        totalTransformMatrix h n = Some (P * m_transformMatrix n))
   \<and> (parent_of h A = None \<and> parent_of h B = Some A \<and> parent_of h C = Some B \<longrightarrow>
        totalTransformMatrix h C
        = Some (m_transformMatrix A * m_transformMatrix B * m_transformMatrix C))
   \<and> (deref h a = Some A \<and> m_parent A = None \<and> deref h b = Some B \<and> m_parent B = Some a
        \<and> m_parent C = Some b \<and> a \<noteq> b \<longrightarrow>
        totalTransformMatrix (h[a := Some (setTransformMatrix T' A)]) C
        = Some (T' * m_transformMatrix B * m_transformMatrix C))
   \<and> (built h \<and> deref h x = Some nx \<longrightarrow> (\<exists>t. totalTransformMatrix h nx = Some t))"
proof -
  have "totalTransformMatrix (h[a := Some (setTransformMatrix T' A)]) C
        = Some (T' * m_transformMatrix B * m_transformMatrix C)"
    if A: "deref h a = Some A" "m_parent A = None" and B: "deref h b = Some B" "m_parent B = Some a"
      and C: "m_parent C = Some b" and ab: "a \<noteq> b"
  proof -
    let ?A = "setTransformMatrix T' A" and ?h = "h[a := Some (setTransformMatrix T' A)]"
    have "a < length h"
      using A(1) by (rule deref_less)
    then have 1: "parent_of ?h ?A = None" and 2: "parent_of ?h B = Some ?A"
      and 3: "parent_of ?h C = Some B"
      using A B C ab by (simp_all add: parent_of_def deref_update setTransformMatrix_def)
    show ?thesis
      using total_chain3 [OF 1 2 3] by (simp add: setTransformMatrix_def)
  qed
  then show ?thesis
    using total_no_parent [of h n] total_parent [of h n pn P] total_chain3 [of h A B C]
      built_total_returns [of h x nx]
    by blast
qed

theorem totalTransformMatrix_chain_witness:
  "parent_of chain_heap chain_A = None \<and> parent_of chain_heap chain_B = Some chain_A
   \<and> parent_of chain_heap chain_C = Some chain_B
   \<and> totalTransformMatrix chain_heap chain_A = Some (m_transformMatrix chain_A)
   \<and> totalTransformMatrix chain_heap chain_B
     = Some (m_transformMatrix chain_A * m_transformMatrix chain_B)
   \<and> totalTransformMatrix chain_heap chain_C
     = Some (m_transformMatrix chain_A * m_transformMatrix chain_B * m_transformMatrix chain_C)
   \<and> totalTransformMatrix (chain_heap[0 := Some (setTransformMatrix 1 chain_A)]) chain_C
     = Some (1 * m_transformMatrix chain_B * m_transformMatrix chain_C)
   \<and> built chain_heap \<and> deref chain_heap 2 = Some chain_C
   \<and> (\<exists>t. totalTransformMatrix chain_heap chain_C = Some t)"
proof -
  have p: "parent_of chain_heap chain_A = None" "parent_of chain_heap chain_B = Some chain_A"
    "parent_of chain_heap chain_C = Some chain_B"
    by (simp_all add: parent_of_def deref_def chain_heap_def chain_A_def chain_B_def chain_C_def
        addChild_def Node_def updateTransformMatrix_fields setPosition_def setScaling_def)
  have d: "deref chain_heap 0 = Some chain_A" "m_parent chain_A = None"
    "deref chain_heap 1 = Some chain_B" "m_parent chain_B = Some 0" "m_parent chain_C = Some 1"
    by (simp_all add: deref_def chain_heap_def chain_A_def chain_B_def chain_C_def
        addChild_def Node_def updateTransformMatrix_fields setPosition_def setScaling_def)
  have A: "totalTransformMatrix chain_heap chain_A = Some (m_transformMatrix chain_A)"
    using totalTransformMatrix_chain [of chain_heap chain_A] p by blast
  have B: "totalTransformMatrix chain_heap chain_B
     = Some (m_transformMatrix chain_A * m_transformMatrix chain_B)"
    using totalTransformMatrix_chain [of chain_heap chain_B chain_A "m_transformMatrix chain_A"]
      p A by blast
  have C: "totalTransformMatrix chain_heap chain_C
     = Some (m_transformMatrix chain_A * m_transformMatrix chain_B * m_transformMatrix chain_C)"
    using totalTransformMatrix_chain [of chain_heap _ _ _ chain_A chain_B chain_C] p by blast
  have D: "totalTransformMatrix (chain_heap[0 := Some (setTransformMatrix 1 chain_A)]) chain_C
     = Some (1 * m_transformMatrix chain_B * m_transformMatrix chain_C)"
    using totalTransformMatrix_chain [of chain_heap _ _ _ chain_A chain_B chain_C 0 1 1] d
    by simp
  have e: "deref chain_heap 2 = Some chain_C"
    by (simp add: deref_def chain_heap_def)
  have E: "\<exists>t. totalTransformMatrix chain_heap chain_C = Some t"
    using totalTransformMatrix_chain [where h = chain_heap and x = 2 and nx = chain_C]
      built_chain e by blast
  show ?thesis
    using p A B C D built_chain e E by blast
qed


text \<open>
  C10. A freshly constructed node has position (0,0,0), rotation quaternion (0,0,0,1),
  scaling (1,1,1), no children and the identity as cached local transform, and these agree:
  \<open>Translate(0,0,0) * Rotate(0,0,0,1) * Scale(1,1,1)\<close> is the identity. The node that the
  factory \<open>createNode\<close> returns for a valid parent is such a node.
\<close>

theorem fresh_node_defaults:
  "m_position (Node name parent) = Vec3 0 0 0
   \<and> m_rotation (Node name parent) = Vec4 0 0 0 1
   \<and> m_scaling (Node name parent) = Vec3 1 1 1
   \<and> m_children (Node name parent) = []
   \<and> m_transformMatrix (Node name parent) = 1
   \<and> Translate (Vec3 0 0 0) * Rotate (Vec4 0 0 0 1) * Scale (Vec3 1 1 1) = 1
   \<and> TRS_consistent (Node name parent)
   \<and> (deref h p = Some pn \<and> createNode sc T name (Some p) h = Inr (a, h') \<longrightarrow>
        (\<exists>n. deref h' a = Some n
           \<and> m_position n = Vec3 0 0 0 \<and> m_rotation n = Vec4 0 0 0 1 \<and> m_scaling n = Vec3 1 1 1
           \<and> m_children n = [] \<and> m_transformMatrix n = 1 \<and> TRS_consistent n))"
proof -
  have "\<exists>n. deref h' a = Some n
           \<and> m_position n = Vec3 0 0 0 \<and> m_rotation n = Vec4 0 0 0 1 \<and> m_scaling n = Vec3 1 1 1
           \<and> m_children n = [] \<and> m_transformMatrix n = 1 \<and> TRS_consistent n"
    if p: "deref h p = Some pn" and c: "createNode sc T name (Some p) h = Inr (a, h')"
  proof -
    have "p < length h"
      using p by (rule deref_less)
    then have "deref h' a = Some (new_node T name (Some p))"
      using c unfolding createNode_valid [OF p] by (auto simp: deref_update deref_append_new)
    then show ?thesis
      by (simp add: new_node_fields TRS_consistent_new)
  qed
  moreover have "TRS_consistent (Node name parent)"
    using TRS_consistent_new [of NodeT] by simp
  ultimately show ?thesis
    using new_node_fields [of NodeT name parent] TRS_defaults by simp
qed

theorem fresh_node_defaults_witness:
  "deref two_roots 0 = Some (Node [] None)
   \<and> createNode scene_one MeshNodeT ''m'' (Some 0) two_roots
     = Inr (2, [Some (addChild (Some 2) (Node [] None)), Some (Node [] None),
                Some (MeshNode ''m'' (Some 0))])
   \<and> deref [Some (addChild (Some 2) (Node [] None)), Some (Node [] None),
             Some (MeshNode ''m'' (Some 0))] 2 = Some (MeshNode ''m'' (Some 0))
   \<and> m_position (MeshNode ''m'' (Some 0)) = Vec3 0 0 0
   \<and> m_rotation (MeshNode ''m'' (Some 0)) = Vec4 0 0 0 1
   \<and> m_scaling (MeshNode ''m'' (Some 0)) = Vec3 1 1 1
   \<and> m_children (MeshNode ''m'' (Some 0)) = []
   \<and> m_transformMatrix (MeshNode ''m'' (Some 0)) = 1
   \<and> TRS_consistent (MeshNode ''m'' (Some 0))"
proof -
  let ?h = "[Some (addChild (Some 2) (Node [] None)), Some (Node [] None),
             Some (MeshNode ''m'' (Some 0))]"
  have d: "deref two_roots 0 = Some (Node [] None)"
    by (simp add: deref_def two_roots_def)
  have c: "createNode scene_one MeshNodeT ''m'' (Some 0) two_roots = Inr (2, ?h)"
    by (simp add: createNode_def two_roots_def Let_def numeral_2_eq_2)
  have e: "deref ?h 2 = Some (MeshNode ''m'' (Some 0))"
    by (simp add: deref_def)
  show ?thesis
    using d c e
      fresh_node_defaults [where h = two_roots and p = 0 and pn = "Node [] None"
        and sc = scene_one and T = MeshNodeT and name = "''m''" and a = 2 and h' = ?h]
    by simp
qed




text \<open>
  The documentation of \<open>createNode\<close> promises an exception when a node of the same name
  exists; the body has no such check, and two nodes of one name are created.
\<close>

lemma createNode_accepts_duplicate_name:
  "createNode scene_one NodeT ''a'' (Some 0) [Some (Node [] None)]
     = Inr (1, [Some (addChild (Some 1) (Node [] None)), Some (Node ''a'' (Some 0))])
   \<and> createNode scene_one NodeT ''a'' (Some 0)
        [Some (addChild (Some 1) (Node [] None)), Some (Node ''a'' (Some 0))]
     = Inr (2, [Some (addChild (Some 2) (addChild (Some 1) (Node [] None))),
                Some (Node ''a'' (Some 0)), Some (Node ''a'' (Some 0))])"
  by (simp add: createNode_def Let_def numeral_2_eq_2)

section \<open>Claims on the renderer\<close>







end
